theory Spec2Isabelle
  imports Main
begin

section \<open>JavaScript values and strings\<close>

text \<open>
  The service is TypeScript over values of type \<open>any\<close>: vendor responses, request
  bodies and Firestore documents. A value is one of the cases below. Numbers are
  modelled as integers (amounts are whole FCFA), with \<open>JNaN\<close> for the result of a
  failed \<open>parseInt\<close>; \<open>JTimestamp\<close> is a Firestore \<open>Timestamp\<close> object; an object is
  the list of its own properties, each name once (arrays are not among the values
  this code reads). A JavaScript string is a list of code units; \<open>string\<close> holds the
  code units below 256, which covers every literal of the source (the accented
  letters of its French messages are the Latin-1 code units).
\<close>

datatype jv =
    JUndef
  | JNull
  | JBool bool
  | JNum int
  | JNaN
  | JStr string
  | JTimestamp int
  | JObj "(string \<times> jv) list"

text \<open>Truthiness, as used by \<open>!x\<close>, \<open>x || y\<close> and \<open>x && y\<close>.\<close>

fun truthy :: "jv \<Rightarrow> bool" where
  "truthy JUndef = False"
| "truthy JNull = False"
| "truthy (JBool b) = b"
| "truthy (JNum n) = (n \<noteq> 0)"
| "truthy JNaN = False"
| "truthy (JStr s) = (s \<noteq> [])"
| "truthy (JTimestamp t) = True"
| "truthy (JObj kvs) = True"

text \<open>\<open>a || b\<close>: the first operand when it is truthy, else the second.\<close>

definition jor :: "jv \<Rightarrow> jv \<Rightarrow> jv" where
  "jor a b = (if truthy a then a else b)"

text \<open>An optional string (\<open>x?: string\<close>) read as a value.\<close>

definition opt_jv :: "string option \<Rightarrow> jv" where
  "opt_jv x = (case x of None \<Rightarrow> JUndef | Some s \<Rightarrow> JStr s)"

text \<open>\<open>a || b\<close> on optional strings: \<open>undefined\<close> and \<open>""\<close> are falsy.\<close>

definition sor :: "string option \<Rightarrow> string option \<Rightarrow> string option" where
  "sor a b = (case a of None \<Rightarrow> b | Some s \<Rightarrow> if s \<noteq> [] then Some s else b)"

text \<open>
  Property access \<open>o.k\<close> on an object given by its field list: the value of the
  field, \<open>undefined\<close> when the object has no such field.
\<close>

definition fld_of :: "(string \<times> jv) list \<Rightarrow> string \<Rightarrow> jv" where
  "fld_of kvs k = (case map_of kvs k of None \<Rightarrow> JUndef | Some v \<Rightarrow> v)"

text \<open>
  What property access sees of an arbitrary value: \<open>null\<close> and \<open>undefined\<close> have
  no properties (reading one throws a TypeError), an object has its fields, and a
  boolean, number or string has none of the fields read by this code.
\<close>

fun obj_of :: "jv \<Rightarrow> (string \<times> jv) list option" where
  "obj_of JUndef = None"
| "obj_of JNull = None"
| "obj_of (JObj kvs) = Some kvs"
| "obj_of v = Some []"

text \<open>\<open>s.startsWith(p)\<close>, \<open>s.substring(n)\<close> is \<open>drop n s\<close>, \<open>s.substring(0, n)\<close> is \<open>take n s\<close>.\<close>

definition startsWith :: "string \<Rightarrow> string \<Rightarrow> bool" where
  "startsWith s p = (take (length p) s = p)"

text \<open>\<open>s.includes(sub)\<close>: \<open>sub\<close> occurs in \<open>s\<close> as a contiguous run.\<close>

fun str_includes :: "string \<Rightarrow> string \<Rightarrow> bool" where
  "str_includes [] sub = (sub = [])"
| "str_includes (c # cs) sub = (startsWith (c # cs) sub \<or> str_includes cs sub)"

text \<open>The character class \<open>\d\<close> of a regular expression without the unicode flag.\<close>

definition is_digit :: "char \<Rightarrow> bool" where
  "is_digit c = (c \<in> set ''0123456789'')"

text \<open>\<open>phone.replace(/\D/g, "")\<close>: every non-digit removed.\<close>

definition strip_non_digits :: "string \<Rightarrow> string" where
  "strip_non_digits phone = filter is_digit phone"

text \<open>The accented letters of the source's messages.\<close>

definition e_acute :: char where "e_acute = CHR 0xE9"
definition e_grave :: char where "e_grave = CHR 0xE8"

section \<open>Phone numbers\<close>

text \<open>\<open>formatPhoneNumber\<close>, statement by statement.\<close>

definition formatPhoneNumber :: "string \<Rightarrow> string" where
  "formatPhoneNumber phone =
     (let cleaned = strip_non_digits phone;
          cleaned = (if startsWith cleaned ''0'' then drop 1 cleaned else cleaned);
          cleaned = (if \<not> startsWith cleaned ''237'' then ''237'' @ cleaned else cleaned)
      in cleaned)"

record validation =
  isValid :: bool
  error :: "string option"

definition msg_too_short :: string where
  "msg_too_short = ''Num'' @ [e_acute] @ ''ro trop court''"

definition msg_not_mtn :: string where
  "msg_not_mtn = ''Ce n'est pas un num'' @ [e_acute] @ ''ro MTN Cameroun''"

definition mtnPrefixes :: "string list" where
  "mtnPrefixes = [''65'', ''67'', ''68'']"

text \<open>\<open>validateMtnPhoneNumber\<close>, statement by statement.\<close>

definition validateMtnPhoneNumber :: "string \<Rightarrow> validation" where
  "validateMtnPhoneNumber phone =
     (let cleaned = strip_non_digits phone in
      if length cleaned < 9 then \<lparr>isValid = False, error = Some msg_too_short\<rparr>
      else
        let numberToCheck = (if startsWith cleaned ''237'' then drop 3 cleaned else cleaned);
            numberToCheck = (if startsWith numberToCheck ''0'' then drop 1 numberToCheck
                             else numberToCheck);
            prefix = take 2 numberToCheck
        in if prefix \<notin> set mtnPrefixes
           then \<lparr>isValid = False, error = Some msg_not_mtn\<rparr>
           else \<lparr>isValid = True, error = None\<rparr>)"

text \<open>
  The specification's reading of the two functions, as separate steps: drop one
  leading trunk digit, add the country code when absent, and the carrier prefix
  of a digit string.
\<close>

definition drop_trunk :: "string \<Rightarrow> string" where
  "drop_trunk ds = (case ds of c # cs \<Rightarrow> if c = CHR ''0'' then cs else ds | [] \<Rightarrow> [])"

definition drop_country :: "string \<Rightarrow> string" where
  "drop_country ds =
     (case ds of a # b # c # rest \<Rightarrow>
        if a = CHR ''2'' \<and> b = CHR ''3'' \<and> c = CHR ''7'' then rest else ds
      | _ \<Rightarrow> ds)"

definition with_country :: "string \<Rightarrow> string" where
  "with_country ds =
     (case ds of a # b # c # rest \<Rightarrow>
        if a = CHR ''2'' \<and> b = CHR ''3'' \<and> c = CHR ''7'' then ds else ''237'' @ ds
      | _ \<Rightarrow> ''237'' @ ds)"

definition carrier_prefix :: "string \<Rightarrow> string" where
  "carrier_prefix ds = take 2 (drop_trunk (drop_country ds))"

section \<open>Status normalisation\<close>

datatype PaymentStatus = PENDING | SUCCESSFUL | FAILED

record NormalizedYnoteStatus =
  ns_status :: PaymentStatus
  ns_amount :: jv
  ns_transactionId :: jv
  ns_reason :: jv

text \<open>
  \<open>normalizeYnoteStatus\<close> on a vendor response given by its fields. \<open>parseInt\<close> is
  the JavaScript builtin, taken as a parameter.
\<close>

definition normalizeYnoteStatus :: "(jv \<Rightarrow> jv) \<Rightarrow> (string \<times> jv) list \<Rightarrow> NormalizedYnoteStatus" where
  "normalizeYnoteStatus parseInt ynoteResponse =
     (let st = jor (fld_of ynoteResponse ''status'')
                 (jor (fld_of ynoteResponse ''transactionStatus'') (JStr ''PENDING''));
          normalizedStatus =
            (if st = JStr ''SUCCESSFUL'' \<or> st = JStr ''SUCCESS'' \<or> st = JStr ''COMPLETED''
             then SUCCESSFUL
             else if st = JStr ''FAILED'' \<or> st = JStr ''REJECTED'' \<or> st = JStr ''CANCELLED''
                     \<or> st = JStr ''EXPIRED''
             then FAILED
             else PENDING)
      in \<lparr>ns_status = normalizedStatus,
          ns_amount = (if truthy (fld_of ynoteResponse ''amount'')
                       then parseInt (fld_of ynoteResponse ''amount'') else JUndef),
          ns_transactionId = jor (fld_of ynoteResponse ''transactionId'')
                            (jor (fld_of ynoteResponse ''financialTransactionId'')
                               (fld_of ynoteResponse ''externalId'')),
          ns_reason = jor (fld_of ynoteResponse ''reason'')
                     (jor (fld_of ynoteResponse ''message'') (fld_of ynoteResponse ''errorMessage''))\<rparr>)"

section \<open>Decimal numerals\<close>

text \<open>Decimal digits of an integer.\<close>

definition digit_char :: "nat \<Rightarrow> char" where
  "digit_char d = ''0123456789'' ! (d mod 10)"

fun show_nat :: "nat \<Rightarrow> string" where
  "show_nat n = (if n < 10 then [digit_char n] else show_nat (n div 10) @ [digit_char (n mod 10)])"

definition show_int :: "int \<Rightarrow> string" where
  "show_int i = (if i < 0 then ''-'' @ show_nat (nat (- i)) else show_nat (nat i))"


section \<open>Exceptions, environment and state\<close>

text \<open>
  A thrown exception is an \<open>Error\<close> object; the callers read nothing of it but its
  message.
\<close>

datatype exn = Error string

fun message :: "exn \<Rightarrow> string" where
  "message (Error m) = m"

text \<open>
  Failures raised below the service's own code, by the JavaScript runtime or by the
  Firestore client, each with what its message can depend on. The message texts
  belong to those libraries and are a parameter (\<open>lib_message\<close>).
\<close>

datatype fault =
    NullProperty jv string
      \<comment> \<open>TypeError: the named property read on \<open>null\<close> or \<open>undefined\<close> (the value)\<close>
  | UndefinedFieldValue string
      \<comment> \<open>Firestore: \<open>undefined\<close> given as the value of the named field\<close>
  | NoDocumentToUpdate string string
      \<comment> \<open>Firestore: \<open>update\<close> of a document (collection, path) that does not exist\<close>
  | InvalidResourcePath jv
      \<comment> \<open>Firestore: \<open>doc(v)\<close> with \<open>v\<close> not a non-empty string, or containing \<open>//\<close>\<close>
  | NotADocumentPath string
      \<comment> \<open>Firestore: \<open>doc(path)\<close> with a path that does not name a document\<close>
  | RejectedDocumentPath string
      \<comment> \<open>Firestore: a document path that the server refuses\<close>

text \<open>The reply of the OAuth token endpoint, with the types OAuth 2.0 gives its fields.\<close>

record token_response =
  access_token :: string
  expires_in :: "int option"

text \<open>A failed \<open>axios.post\<close>: the error's message and \<open>error.response?.status\<close>.\<close>

record axios_error =
  ax_message :: string
  ax_status :: jv

text \<open>
  Everything the service reads from outside itself: the configuration
  (\<open>YNOTE_CREDENTIALS\<close>, \<open>YNOTE_CONFIG\<close>, \<open>CALLBACK_CONFIG.url\<close>), the clock, the
  identifier generator, the builtins not modelled here (\<open>parseInt\<close>, Base64, the
  exponent notation of large numbers), the document paths that the store's server
  refuses (\<open>store_rejects\<close>, on the path's segments), and the replies of the three
  gateway endpoints. Within one request every \<open>Timestamp.now()\<close> yields the one value
  \<open>timestamp_now\<close>.
\<close>

record env =
  clientId :: string
  clientSecret :: string
  customerKey :: string
  subscriptionKey :: string
  tokenUrl :: string
  baseUrl :: string
  callbackUrl :: string
  date_now :: int
  timestamp_now :: int
  uuidv4 :: string
  base64 :: "string \<Rightarrow> string"
  parseInt :: "jv \<Rightarrow> jv"
  exponent_string :: "int \<Rightarrow> string"
  store_rejects :: "string list \<Rightarrow> bool"
  lib_message :: "fault \<Rightarrow> string"
  token_reply :: "axios_error + token_response"
  payment_reply :: "axios_error + jv"
  status_reply :: "axios_error + jv"

definition currency :: string where
  "currency = ''XAF''"

text \<open>
  \<open>String(v)\<close>, the conversion a template literal \<open>`${v}`\<close> and \<open>n.toString()\<close> apply.
  An integer of magnitude below \<open>10\<^sup>2\<^sup>1\<close> prints in decimal, a larger one in exponent
  notation (\<open>exponent_string\<close>).
\<close>

fun js_String :: "env \<Rightarrow> jv \<Rightarrow> string" where
  "js_String e JUndef = ''undefined''"
| "js_String e JNull = ''null''"
| "js_String e (JBool b) = (if b then ''true'' else ''false'')"
| "js_String e (JNum n) = (if \<bar>n\<bar> < 10 ^ 21 then show_int n else exponent_string e n)"
| "js_String e JNaN = ''NaN''"
| "js_String e (JStr s) = s"
| "js_String e (JTimestamp t) = ''[object Object]''"
| "js_String e (JObj kvs) = ''[object Object]''"

text \<open>An HTTP request sent to the gateway: URL, \<open>Authorization\<close> header, body.\<close>

datatype http_request = Post string string jv

text \<open>
  A Firestore document is a finite map from field names to values; a collection maps
  document paths to documents. \<open>notifications\<close> is only ever appended to (\<open>add\<close>), so
  it is the list of its documents in creation order. The state also holds the
  process-wide token cache and the log of the requests sent to the gateway.
\<close>

type_synonym doc = "string \<rightharpoonup> jv"

record world =
  campaigns :: "string \<rightharpoonup> doc"
  mtn_transactions :: "string \<rightharpoonup> doc"
  notifications :: "doc list"
  cachedToken :: "(string \<times> int) option"
  sent :: "http_request list"

text \<open>\<open>data()?.k\<close> on a document that exists.\<close>

definition fld :: "doc \<Rightarrow> string \<Rightarrow> jv" where
  "fld d k = (case d k of None \<Rightarrow> JUndef | Some v \<Rightarrow> v)"

subsection \<open>The document store\<close>

text \<open>
  \<open>collection(c).doc(path)\<close> takes a path relative to the collection. The Firestore
  client throws unless \<open>path\<close> is a non-empty string without \<open>//\<close>; it splits the
  path at \<open>/\<close> and drops the empty segments (so a leading or trailing \<open>/\<close> is
  ignored), and throws unless the segments name a document, that is, unless their
  number is odd: \<open>a\<close> and \<open>a/b/c\<close> are documents, \<open>a/b\<close> and \<open>/\<close> are not. The
  server has constraints of its own on the ids in a path (it reserves some, such as
  \<open>.\<close>); they are the parameter \<open>store_rejects\<close>. The server applies them at the first
  read or write through the reference, which in this code follows \<open>doc\<close> at once, so
  that failure is raised here as well. A collection of the state maps each document
  path under it, written with its segments joined by \<open>/\<close>, to the document.
\<close>

fun split_slash :: "string \<Rightarrow> string list" where
  "split_slash [] = [[]]"
| "split_slash (c # cs) =
     (if c = CHR ''/'' then [] # split_slash cs
      else (case split_slash cs of
              [] \<Rightarrow> [[c]]
            | s # ss \<Rightarrow> (c # s) # ss))"

definition path_segments :: "string \<Rightarrow> string list" where
  "path_segments p = filter (\<lambda>s. s \<noteq> []) (split_slash p)"

fun join_slash :: "string list \<Rightarrow> string" where
  "join_slash [] = []"
| "join_slash [s] = s"
| "join_slash (s # t # ss) = s @ ''/'' @ join_slash (t # ss)"

definition fs_doc :: "env \<Rightarrow> jv \<Rightarrow> exn + string" where
  "fs_doc e v =
     (case v of
        JStr p \<Rightarrow>
          if p = [] \<or> str_includes p ''//'' then Inl (Error (lib_message e (InvalidResourcePath v)))
          else if even (length (path_segments p))
          then Inl (Error (lib_message e (NotADocumentPath p)))
          else if store_rejects e (path_segments p)
          then Inl (Error (lib_message e (RejectedDocumentPath p)))
          else Inr (join_slash (path_segments p))
      | _ \<Rightarrow> Inl (Error (lib_message e (InvalidResourcePath v))))"

text \<open>
  The Firestore client rejects \<open>undefined\<close> as a field value (the service never sets
  \<open>ignoreUndefinedProperties\<close>), naming the first such field; \<open>update\<close> fails on a
  document that does not exist and otherwise merges the given fields into it; \<open>set\<close>
  replaces the document; \<open>add\<close> creates a new one.
\<close>

definition no_undefined :: "(string \<times> jv) list \<Rightarrow> bool" where
  "no_undefined kvs = list_all (\<lambda>kv. snd kv \<noteq> JUndef) kvs"

definition undefined_field :: "(string \<times> jv) list \<Rightarrow> string" where
  "undefined_field kvs = (case filter (\<lambda>kv. snd kv = JUndef) kvs of [] \<Rightarrow> [] | kv # _ \<Rightarrow> fst kv)"

definition merge_fields :: "doc \<Rightarrow> (string \<times> jv) list \<Rightarrow> doc" where
  "merge_fields d kvs = foldl (\<lambda>m kv. m(fst kv \<mapsto> snd kv)) d kvs"

text \<open>
  \<open>update\<close>, \<open>set\<close> and \<open>add\<close> on a collection; \<open>cname\<close> is the collection's name and
  \<open>k\<close> the document path that \<open>doc\<close> returned.
\<close>

definition fs_update ::
  "env \<Rightarrow> string \<Rightarrow> (string \<rightharpoonup> doc) \<Rightarrow> string \<Rightarrow> (string \<times> jv) list
     \<Rightarrow> exn + (string \<rightharpoonup> doc)" where
  "fs_update e cname coll k kvs =
     (if \<not> no_undefined kvs
      then Inl (Error (lib_message e (UndefinedFieldValue (undefined_field kvs))))
      else case coll k of
             None \<Rightarrow> Inl (Error (lib_message e (NoDocumentToUpdate cname k)))
           | Some d \<Rightarrow> Inr (coll(k \<mapsto> merge_fields d kvs)))"

definition fs_set ::
  "env \<Rightarrow> (string \<rightharpoonup> doc) \<Rightarrow> string \<Rightarrow> (string \<times> jv) list \<Rightarrow> exn + (string \<rightharpoonup> doc)" where
  "fs_set e coll k kvs =
     (if \<not> no_undefined kvs
      then Inl (Error (lib_message e (UndefinedFieldValue (undefined_field kvs))))
      else Inr (coll(k \<mapsto> merge_fields Map.empty kvs)))"

definition fs_add :: "env \<Rightarrow> doc list \<Rightarrow> (string \<times> jv) list \<Rightarrow> exn + doc list" where
  "fs_add e coll kvs =
     (if \<not> no_undefined kvs
      then Inl (Error (lib_message e (UndefinedFieldValue (undefined_field kvs))))
      else Inr (coll @ [merge_fields Map.empty kvs]))"

section \<open>Credentials and access token\<close>

definition msg_credentials :: string where
  "msg_credentials =
     ''Credentials Y-Note (clientId/clientSecret) non configur'' @ [e_acute] @ ''es. V''
     @ [e_acute] @ ''rifiez votre fichier .env''"

definition msg_client_credentials :: string where
  "msg_client_credentials =
     ''Credentials client Y-Note (customerKey/subscriptionKey) non configur'' @ [e_acute]
     @ ''es. V'' @ [e_acute] @ ''rifiez votre fichier .env''"

text \<open>\<open>validateCredentials\<close>: the exception it throws, \<open>None\<close> when it returns.\<close>

definition validateCredentials :: "env \<Rightarrow> exn option" where
  "validateCredentials e =
     (if clientId e = [] \<or> clientSecret e = [] then Some (Error msg_credentials)
      else if customerKey e = [] \<or> subscriptionKey e = [] then Some (Error msg_client_credentials)
      else None)"

text \<open>
  \<open>getAccessToken\<close>: the cached token while it is valid for 60 more seconds, else a
  request to the token endpoint, whose reply is cached.
\<close>

definition getAccessToken :: "env \<Rightarrow> world \<Rightarrow> (exn + string) \<times> world" where
  "getAccessToken e w =
     (let now = date_now e;
          cache_hit = (case cachedToken w of
                         None \<Rightarrow> None
                       | Some c \<Rightarrow> if snd c > now + 60000 then Some (fst c) else None)
      in case cache_hit of
           Some token \<Rightarrow> (Inr token, w)
         | None \<Rightarrow>
             let credentials = base64 e (clientId e @ '':'' @ clientSecret e);
                 w1 = w\<lparr>sent := sent w @ [Post (tokenUrl e) (''Basic '' @ credentials)
                                              (JStr ''grant_type=client_credentials'')]\<rparr>
             in (case token_reply e of
                  Inl err \<Rightarrow>
                    (Inl (Error (''Erreur d'authentification Y-Note: ''
                                 @ js_String e (jor (ax_status err) (JStr ''Unknown'')))), w1)
                | Inr data \<Rightarrow>
                    let expiresIn = (case expires_in data of
                                       None \<Rightarrow> 3600
                                     | Some n \<Rightarrow> if n \<noteq> 0 then n else 3600)
                    in (Inr (access_token data),
                        w1\<lparr>cachedToken := Some (access_token data, now + expiresIn * 1000)\<rparr>)))"

section \<open>Initiating a payment\<close>

record InitiatePaymentRequest =
  req_campaignId :: string
  req_amount :: int
  req_phoneNumber :: string
  req_payerMessage :: "string option"

record PaymentResponse =
  pr_success :: bool
  pr_referenceId :: jv
  pr_status :: PaymentStatus
  pr_message :: string

definition msg_missing_params :: string where
  "msg_missing_params =
     ''Param'' @ [e_grave] @ ''tres manquants: campaignId, amount, phoneNumber requis''"

definition msg_min_amount :: string where
  "msg_min_amount = ''Le montant minimum est de 100 FCFA''"

definition msg_invalid_phone :: string where
  "msg_invalid_phone =
     ''Num'' @ [e_acute] @ ''ro de t'' @ [e_acute] @ ''l'' @ [e_acute] @ ''phone invalide''"

definition msg_campaign_not_found :: string where
  "msg_campaign_not_found = ''Campagne introuvable''"

definition msg_not_owner :: string where
  "msg_not_owner = ''Cette campagne ne vous appartient pas''"

definition msg_not_pending :: string where
  "msg_not_pending = ''Cette campagne n'est pas en attente de paiement''"

definition msg_initiated :: string where
  "msg_initiated =
     ''Paiement initi'' @ [e_acute] @ ''. Veuillez confirmer sur votre t'' @ [e_acute]
     @ ''l'' @ [e_acute] @ ''phone.''"

definition successCodes :: "jv list" where
  "successCodes = [JNum 200, JNum 201, JStr ''200'', JStr ''201'']"

text \<open>\<open>x || d\<close> for an optional string \<open>x\<close> and a string \<open>d\<close>.\<close>

definition sor_str :: "string option \<Rightarrow> string \<Rightarrow> string" where
  "sor_str a d = (case a of None \<Rightarrow> d | Some s \<Rightarrow> if s \<noteq> [] then s else d)"

text \<open>
  The \<open>try\<close> block of \<open>initiatePayment\<close>, entered once every check has passed;
  \<open>campaignRef\<close> is the campaign's document path and \<open>campaignData\<close> the campaign
  document read before. Its \<open>catch\<close> rethrows the exception as it is.
\<close>

definition initiatePayment_try ::
  "env \<Rightarrow> world \<Rightarrow> InitiatePaymentRequest \<Rightarrow> string \<Rightarrow> string \<Rightarrow> doc
     \<Rightarrow> (exn + PaymentResponse) \<times> world" where
  "initiatePayment_try e w request userId campaignRef campaignData =
     (case getAccessToken e w of
        (Inl x, w1) \<Rightarrow> (Inl x, w1)
      | (Inr accessToken, w1) \<Rightarrow>
          let campaignId = req_campaignId request;
              referenceId = uuidv4 e;
              formattedPhone = formatPhoneNumber (req_phoneNumber request);
              paymentBody = JObj [(''API_MUT'', JObj [
                 (''notifUrl'', JStr (callbackUrl e)),
                 (''subscriberMsisdn'', JStr formattedPhone),
                 (''description'', JStr (sor_str (req_payerMessage request)
                    (''Paiement campagne Ilios: ''
                     @ js_String e (jor (fld campaignData ''name'') (JStr campaignId))))),
                 (''amount'', JStr (js_String e (JNum (req_amount request)))),
                 (''order_id'', JStr referenceId),
                 (''customerkey'', JStr (customerKey e)),
                 (''customersecret'', JStr (subscriptionKey e)),
                 (''PaiementMethod'', JStr ''MTN_CMR'')])];
              w2 = w1\<lparr>sent := sent w1 @ [Post (baseUrl e @ ''/webpayment'')
                                             (''Bearer '' @ accessToken) paymentBody]\<rparr>
          in (case payment_reply e of
               Inl err \<Rightarrow> (Inl (Error (ax_message err)), w2)
             | Inr paymentResponse \<Rightarrow>
                 (case obj_of paymentResponse of
                    None \<Rightarrow>
                      (Inl (Error (lib_message e (NullProperty paymentResponse ''errorCode''))), w2)
                  | Some resp \<Rightarrow>
                      let errorCode = jor (fld_of resp ''errorCode'') (fld_of resp ''ErrorCode'') in
                      if truthy errorCode \<and> errorCode \<notin> set successCodes then
                        let errorMessage =
                              jor (fld_of resp ''ErrorMessage'')
                                (jor (fld_of resp ''body'')
                                   (jor (fld_of resp ''message'') (JStr ''Erreur inconnue'')))
                        in (Inl (Error (''Erreur Y-Note ('' @ js_String e errorCode @ ''): ''
                                        @ js_String e errorMessage)), w2)
                      else
                        let ynoteMessageId =
                              jor (case obj_of (fld_of resp ''parameters'') of
                                     None \<Rightarrow> JUndef
                                   | Some ps \<Rightarrow> fld_of ps ''MessageId'')
                                  (JStr referenceId)
                        in (case fs_doc e (JStr referenceId) of
                             Inl x \<Rightarrow> (Inl x, w2)
                           | Inr transactionRef \<Rightarrow>
                           (case fs_set e (mtn_transactions w2) transactionRef [
                                  (''referenceId'', JStr referenceId),
                                  (''ynoteMessageId'', ynoteMessageId),
                                  (''campaignId'', JStr campaignId),
                                  (''userId'', JStr userId),
                                  (''amount'', JNum (req_amount request)),
                                  (''currency'', JStr currency),
                                  (''phoneNumber'', JStr formattedPhone),
                                  (''status'', jor (fld_of resp ''status'') (JStr ''PENDING'')),
                                  (''paymentMethod'', JStr ''mtn''),
                                  (''ynoteResponse'', paymentResponse),
                                  (''createdAt'', JTimestamp (timestamp_now e)),
                                  (''updatedAt'', JTimestamp (timestamp_now e))] of
                             Inl x \<Rightarrow> (Inl x, w2)
                           | Inr ts \<Rightarrow>
                               let w3 = w2\<lparr>mtn_transactions := ts\<rparr> in
                               (case fs_update e ''campaigns'' (campaigns w3) campaignRef [
                                        (''mtnReferenceId'', JStr referenceId),
                                        (''ynoteMessageId'', ynoteMessageId),
                                        (''mtnPaymentStatus'', JStr ''PENDING''),
                                        (''updatedAt'', JTimestamp (timestamp_now e))] of
                                  Inl x \<Rightarrow> (Inl x, w3)
                                | Inr cs \<Rightarrow>
                                    (Inr \<lparr>pr_success = True, pr_referenceId = ynoteMessageId,
                                          pr_status = PENDING, pr_message = msg_initiated\<rparr>,
                                     w3\<lparr>campaigns := cs\<rparr>)))))))"

text \<open>
  \<open>initiatePayment\<close>: the checks in the source's order (\<open>doc(campaignId)\<close> comes after
  the phone check and before the read), then the \<open>try\<close> block.
\<close>

definition initiatePayment ::
  "env \<Rightarrow> world \<Rightarrow> InitiatePaymentRequest \<Rightarrow> string \<Rightarrow> (exn + PaymentResponse) \<times> world" where
  "initiatePayment e w request userId =
     (case validateCredentials e of
        Some x \<Rightarrow> (Inl x, w)
      | None \<Rightarrow>
          if req_campaignId request = [] \<or> req_amount request = 0 \<or> req_phoneNumber request = []
          then (Inl (Error msg_missing_params), w)
          else if req_amount request < 100 then (Inl (Error msg_min_amount), w)
          else
            let phoneValidation = validateMtnPhoneNumber (req_phoneNumber request) in
            if \<not> isValid phoneValidation
            then (Inl (Error (sor_str (error phoneValidation) msg_invalid_phone)), w)
            else
              (case fs_doc e (JStr (req_campaignId request)) of
                 Inl x \<Rightarrow> (Inl x, w)
               | Inr campaignRef \<Rightarrow>
              (case campaigns w campaignRef of
                None \<Rightarrow> (Inl (Error msg_campaign_not_found), w)
              | Some campaignData \<Rightarrow>
                  if fld campaignData ''userId'' \<noteq> JStr userId
                  then (Inl (Error msg_not_owner), w)
                  else if fld campaignData ''status'' \<noteq> JStr ''pending_payment''
                  then (Inl (Error msg_not_pending), w)
                  else initiatePayment_try e w request userId campaignRef campaignData)))"

section \<open>Checking a payment's status\<close>

record PaymentStatusResponse =
  sr_success :: bool
  sr_status :: PaymentStatus
  sr_amount :: jv
  sr_currency :: string
  sr_financialTransactionId :: jv
  sr_reason :: jv

text \<open>A \<open>PaymentStatus\<close> as the string the source writes.\<close>

fun status_string :: "PaymentStatus \<Rightarrow> string" where
  "status_string PENDING = ''PENDING''"
| "status_string SUCCESSFUL = ''SUCCESSFUL''"
| "status_string FAILED = ''FAILED''"

definition msg_payment_confirmed :: "env \<Rightarrow> jv \<Rightarrow> string" where
  "msg_payment_confirmed e amount =
     ''Paiement MTN Mobile Money de '' @ js_String e amount @ '' FCFA confirm'' @ [e_acute]
     @ '' pour votre campagne.''"

definition msg_payment_failed :: "env \<Rightarrow> jv \<Rightarrow> string" where
  "msg_payment_failed e amount =
     ''Le paiement MTN Mobile Money de '' @ js_String e amount @ '' FCFA a '' @ [e_acute]
     @ ''chou'' @ [e_acute] @ ''. Veuillez r'' @ [e_acute] @ ''essayer.''"

text \<open>
  \<open>handleSuccessfulPayment\<close>: \<open>doc(campaignId)\<close>, then the read of the campaign, and
  only when it exists with status \<open>pending_payment\<close> the update and then the
  notification.
\<close>

definition handleSuccessfulPayment ::
  "env \<Rightarrow> world \<Rightarrow> string \<Rightarrow> string \<Rightarrow> NormalizedYnoteStatus \<Rightarrow> string option
     \<Rightarrow> (exn + unit) \<times> world" where
  "handleSuccessfulPayment e w campaignId referenceId st userId =
     (case fs_doc e (JStr campaignId) of
        Inl x \<Rightarrow> (Inl x, w)
      | Inr campaignRef \<Rightarrow>
     (case campaigns w campaignRef of
        None \<Rightarrow> (Inr (), w)
      | Some campaignData \<Rightarrow>
          if fld campaignData ''status'' = JStr ''pending_payment'' then
            (case fs_update e ''campaigns'' (campaigns w) campaignRef [
                     (''status'', JStr ''scheduled''),
                     (''paymentMethod'', JStr ''mtn''),
                     (''paymentAmount'', jor (ns_amount st) (JNum 0)),
                     (''paidAt'', JTimestamp (timestamp_now e)),
                     (''mtnPaymentStatus'', JStr ''SUCCESSFUL''),
                     (''mtnTransactionId'', jor (ns_transactionId st) (JStr referenceId)),
                     (''updatedAt'', JTimestamp (timestamp_now e)),
                     (''updatedBy'', jor (opt_jv userId) (fld campaignData ''userId''))] of
               Inl x \<Rightarrow> (Inl x, w)
             | Inr cs \<Rightarrow>
                 let w1 = w\<lparr>campaigns := cs\<rparr> in
                 (case fs_add e (notifications w1) [
                          (''recipientId'', fld campaignData ''userId''),
                          (''recipientType'', JStr ''user''),
                          (''campaignId'', JStr campaignId),
                          (''type'', JStr ''payment_success''),
                          (''message'',
                             JStr (msg_payment_confirmed e (jor (ns_amount st) (JNum 0)))),
                          (''createdAt'', JTimestamp (timestamp_now e)),
                          (''isRead'', JBool False)] of
                    Inl x \<Rightarrow> (Inl x, w1)
                  | Inr ns \<Rightarrow> (Inr (), w1\<lparr>notifications := ns\<rparr>)))
          else (Inr (), w)))"

text \<open>
  The \<open>try\<close> block of \<open>checkPaymentStatus\<close>. \<open>campaignId\<close> and \<open>userId\<close> are the
  optional arguments. \<open>doc(referenceId)\<close> comes after the gateway's answer has been
  normalized.
\<close>

definition checkPaymentStatus_try ::
  "env \<Rightarrow> world \<Rightarrow> string \<Rightarrow> string option \<Rightarrow> string option
     \<Rightarrow> (exn + PaymentStatusResponse) \<times> world" where
  "checkPaymentStatus_try e w referenceId campaignId userId =
     (case getAccessToken e w of
        (Inl x, w1) \<Rightarrow> (Inl x, w1)
      | (Inr accessToken, w1) \<Rightarrow>
          let w2 = w1\<lparr>sent := sent w1 @ [Post (baseUrl e @ ''/webpaymentmtn/status'')
                          (''Bearer '' @ accessToken)
                          (JObj [(''message_id'', JStr referenceId),
                                 (''customerkey'', JStr (customerKey e)),
                                 (''customersecret'', JStr (subscriptionKey e))])]\<rparr>
          in (case status_reply e of
               Inl err \<Rightarrow> (Inl (Error (ax_message err)), w2)
             | Inr paymentStatus \<Rightarrow>
                 (case obj_of paymentStatus of
                    None \<Rightarrow>
                      (Inl (Error (lib_message e (NullProperty paymentStatus ''status''))), w2)
                  | Some resp \<Rightarrow>
                      let normalizedStatus = normalizeYnoteStatus (parseInt e) resp;
                          updated =
                            (case fs_doc e (JStr referenceId) of
                               Inl x \<Rightarrow> Inl x
                             | Inr transactionRef \<Rightarrow>
                            (case mtn_transactions w2 transactionRef of
                               None \<Rightarrow> Inr w2
                             | Some transactionData \<Rightarrow>
                                 (case fs_update e ''mtn_transactions'' (mtn_transactions w2)
                                         transactionRef [
                                          (''status'', JStr (status_string (ns_status normalizedStatus))),
                                          (''ynoteStatusResponse'', paymentStatus),
                                          (''updatedAt'', JTimestamp (timestamp_now e))] of
                                    Inl x \<Rightarrow> Inl x
                                  | Inr ts \<Rightarrow> Inr (w2\<lparr>mtn_transactions := ts\<rparr>))))
                      in (case updated of
                           Inl x \<Rightarrow> (Inl x, w2)
                         | Inr w3 \<Rightarrow>
                             let handled =
                                   (case campaignId of
                                      None \<Rightarrow> (Inr (), w3)
                                    | Some cid \<Rightarrow>
                                        if ns_status normalizedStatus = SUCCESSFUL \<and> cid \<noteq> []
                                        then handleSuccessfulPayment e w3 cid referenceId
                                               normalizedStatus userId
                                        else (Inr (), w3))
                             in (case handled of
                                  (Inl x, w4) \<Rightarrow> (Inl x, w4)
                                | (Inr u, w4) \<Rightarrow>
                                    (Inr \<lparr>sr_success = True,
                                          sr_status = ns_status normalizedStatus,
                                          sr_amount =
                                            (if ns_amount normalizedStatus = JUndef
                                                \<or> ns_amount normalizedStatus = JNull
                                             then JUndef
                                             else JStr (js_String e (ns_amount normalizedStatus))),
                                          sr_currency = currency,
                                          sr_financialTransactionId = ns_transactionId normalizedStatus,
                                          sr_reason = ns_reason normalizedStatus\<rparr>, w4))))))"

definition msg_status_check_failed :: string where
  "msg_status_check_failed =
     ''Erreur lors de la v'' @ [e_acute] @ ''rification du statut''"

text \<open>
  \<open>checkPaymentStatus\<close>: the two checks before the \<open>try\<close>, and the \<open>catch\<close>, which
  throws a new \<open>Error\<close> with the caught message (a default when that is empty).
\<close>

definition checkPaymentStatus ::
  "env \<Rightarrow> world \<Rightarrow> string \<Rightarrow> string option \<Rightarrow> string option
     \<Rightarrow> (exn + PaymentStatusResponse) \<times> world" where
  "checkPaymentStatus e w referenceId campaignId userId =
     (if referenceId = [] then (Inl (Error ''referenceId requis''), w)
      else (case validateCredentials e of
             Some x \<Rightarrow> (Inl x, w)
           | None \<Rightarrow>
               (case checkPaymentStatus_try e w referenceId campaignId userId of
                  (Inl x, w') \<Rightarrow>
                    (Inl (Error (if message x \<noteq> [] then message x else msg_status_check_failed)), w')
                | (Inr r, w') \<Rightarrow> (Inr r, w'))))"

section \<open>The gateway's callback\<close>

text \<open>
  \<open>MtnCallbackData\<close>, with the types the interface declares; \<open>cb_rest\<close> holds the
  properties admitted by its index signature.
\<close>

record MtnCallbackData =
  cb_referenceId :: "string option"
  cb_order_id :: "string option"
  cb_status :: "string option"
  cb_financialTransactionId :: "string option"
  cb_amount :: jv
  cb_message :: "string option"
  cb_rest :: "(string \<times> jv) list"

definition opt_field :: "string \<Rightarrow> string option \<Rightarrow> (string \<times> jv) list" where
  "opt_field k x = (case x of None \<Rightarrow> [] | Some s \<Rightarrow> [(k, JStr s)])"

text \<open>The callback object as the value stored in \<open>mtnCallbackData\<close>.\<close>

definition callback_json :: "MtnCallbackData \<Rightarrow> jv" where
  "callback_json cb =
     JObj (opt_field ''referenceId'' (cb_referenceId cb)
           @ opt_field ''order_id'' (cb_order_id cb)
           @ opt_field ''status'' (cb_status cb)
           @ opt_field ''financialTransactionId'' (cb_financialTransactionId cb)
           @ (if cb_amount cb = JUndef then [] else [(''amount'', cb_amount cb)])
           @ opt_field ''message'' (cb_message cb)
           @ cb_rest cb)"

definition msg_reference_missing :: string where
  "msg_reference_missing = ''referenceId manquant dans le callback''"

definition msg_transaction_not_found :: string where
  "msg_transaction_not_found = ''Transaction introuvable''"

text \<open>
  \<open>handleCallback\<close>. \<open>referenceId\<close> is \<open>callbackData.referenceId || callbackData.order_id\<close>,
  falsy when it is \<open>undefined\<close> or empty; \<open>doc(referenceId)\<close> comes before the read of
  the transaction. The status compared with \<open>"SUCCESSFUL"\<close> and \<open>"FAILED"\<close>, and
  written to the transaction, is \<open>callbackData.status\<close> as received.
\<close>

definition handleCallback :: "env \<Rightarrow> world \<Rightarrow> MtnCallbackData \<Rightarrow> (exn + unit) \<times> world" where
  "handleCallback e w callbackData =
     (let st = cb_status callbackData;
          financialTransactionId = cb_financialTransactionId callbackData
      in
      case sor (cb_referenceId callbackData) (cb_order_id callbackData) of
        None \<Rightarrow> (Inl (Error msg_reference_missing), w)
      | Some referenceId \<Rightarrow>
      if referenceId = [] then (Inl (Error msg_reference_missing), w)
      else
        (case fs_doc e (JStr referenceId) of
           Inl x \<Rightarrow> (Inl x, w)
         | Inr transactionRef \<Rightarrow>
        (case mtn_transactions w transactionRef of
          None \<Rightarrow> (Inl (Error msg_transaction_not_found), w)
        | Some transactionData \<Rightarrow>
            (case fs_update e ''mtn_transactions'' (mtn_transactions w) transactionRef [
                     (''status'', opt_jv st),
                     (''financialTransactionId'', opt_jv financialTransactionId),
                     (''mtnCallbackData'', callback_json callbackData),
                     (''updatedAt'', JTimestamp (timestamp_now e))] of
               Inl x \<Rightarrow> (Inl x, w)
             | Inr ts \<Rightarrow>
                 let w1 = w\<lparr>mtn_transactions := ts\<rparr> in
                 if st = Some ''SUCCESSFUL'' \<and> truthy (fld transactionData ''campaignId'') then
                   (case fs_doc e (fld transactionData ''campaignId'') of
                      Inl x \<Rightarrow> (Inl x, w1)
                    | Inr cid \<Rightarrow>
                        (case campaigns w1 cid of
                           None \<Rightarrow> (Inr (), w1)
                         | Some campaignData \<Rightarrow>
                             if fld campaignData ''status'' = JStr ''pending_payment'' then
                               (case fs_update e ''campaigns'' (campaigns w1) cid [
                                        (''status'', JStr ''scheduled''),
                                        (''paymentMethod'', JStr ''mtn''),
                                        (''paymentAmount'', fld transactionData ''amount''),
                                        (''paidAt'', JTimestamp (timestamp_now e)),
                                        (''mtnPaymentStatus'', JStr ''SUCCESSFUL''),
                                        (''mtnTransactionId'',
                                           JStr (sor_str financialTransactionId referenceId)),
                                        (''updatedAt'', JTimestamp (timestamp_now e)),
                                        (''updatedBy'', fld transactionData ''userId'')] of
                                  Inl x \<Rightarrow> (Inl x, w1)
                                | Inr cs \<Rightarrow>
                                    let w2 = w1\<lparr>campaigns := cs\<rparr> in
                                    (case fs_add e (notifications w2) [
                                             (''recipientId'', fld transactionData ''userId''),
                                             (''recipientType'', JStr ''user''),
                                             (''campaignId'', fld transactionData ''campaignId''),
                                             (''type'', JStr ''payment_success''),
                                             (''message'', JStr (msg_payment_confirmed e
                                                                  (fld transactionData ''amount''))),
                                             (''createdAt'', JTimestamp (timestamp_now e)),
                                             (''isRead'', JBool False)] of
                                       Inl x \<Rightarrow> (Inl x, w2)
                                     | Inr ns \<Rightarrow> (Inr (), w2\<lparr>notifications := ns\<rparr>)))
                             else (Inr (), w1)))
                 else if st = Some ''FAILED'' \<and> truthy (fld transactionData ''campaignId'') then
                   (case fs_add e (notifications w1) [
                            (''recipientId'', fld transactionData ''userId''),
                            (''recipientType'', JStr ''user''),
                            (''campaignId'', fld transactionData ''campaignId''),
                            (''type'', JStr ''payment_failed''),
                            (''message'',
                               JStr (msg_payment_failed e (fld transactionData ''amount''))),
                            (''createdAt'', JTimestamp (timestamp_now e)),
                            (''isRead'', JBool False)] of
                      Inl x \<Rightarrow> (Inl x, w1)
                    | Inr ns \<Rightarrow>
                        let w2 = w1\<lparr>notifications := ns\<rparr> in
                        (case fs_doc e (fld transactionData ''campaignId'') of
                           Inl x \<Rightarrow> (Inl x, w2)
                         | Inr cid \<Rightarrow>
                             (case fs_update e ''campaigns'' (campaigns w2) cid [
                                      (''mtnPaymentStatus'', JStr ''FAILED''),
                                      (''updatedAt'', JTimestamp (timestamp_now e))] of
                                Inl x \<Rightarrow> (Inl x, w2)
                              | Inr cs \<Rightarrow> (Inr (), w2\<lparr>campaigns := cs\<rparr>))))
                 else (Inr (), w1)))))"

section \<open>The webhook route\<close>

record callback_request =
  http_method :: string
  body :: MtnCallbackData

text \<open>
  The handler of \<open>POST /ynote-callback\<close>: the HTTP status and the JSON body it
  answers with, and the state left behind.
\<close>

definition ynote_callback_route ::
  "env \<Rightarrow> world \<Rightarrow> callback_request \<Rightarrow> (nat \<times> jv) \<times> world" where
  "ynote_callback_route e w req =
     (if http_method req \<noteq> ''POST''
      then ((405, JObj [(''error'', JStr ''Method Not Allowed'')]), w)
      else case handleCallback e w (body req) of
             (Inr u, w') \<Rightarrow>
               ((200, JObj [(''success'', JBool True),
                            (''message'', JStr (''Callback trait'' @ [e_acute] @ '' avec succ''
                                                @ [e_grave] @ ''s''))]), w')
           | (Inl x, w') \<Rightarrow>
               if str_includes (message x) ''introuvable''
               then ((404, JObj [(''error'', JStr (message x))]), w')
               else if str_includes (message x) ''manquant''
               then ((400, JObj [(''error'', JStr (message x))]), w')
               else ((500, JObj [(''error'', JStr ''Erreur interne lors du traitement'')]), w'))"

section \<open>Sample data\<close>

text \<open>
  A configuration, a store and a few requests on which the definitions above are
  evaluated: one campaign \<open>camp-1\<close> owned by \<open>user-1\<close>, a transaction \<open>ref-1\<close> for it,
  and a transaction \<open>ref-9\<close> whose campaign \<open>camp-9\<close> no longer exists. The gateway
  answers a status query with the vendor status \<open>SUCCESS\<close>.
\<close>

definition sample_lib_message :: "fault \<Rightarrow> string" where
  "sample_lib_message f =
     (case f of
        NullProperty v k \<Rightarrow> ''Cannot read properties of null (reading '' @ k @ '')''
      | UndefinedFieldValue k \<Rightarrow>
          ''Cannot use undefined as a Firestore value (found in field '' @ k @ '')''
      | NoDocumentToUpdate c k \<Rightarrow> ''NOT_FOUND: No document to update: '' @ c @ ''/'' @ k
      | InvalidResourcePath v \<Rightarrow> ''Path must be a non-empty string without //''
      | NotADocumentPath p \<Rightarrow>
          ''Value for argument documentPath must point to a document, but was '' @ p
      | RejectedDocumentPath p \<Rightarrow> ''INVALID_ARGUMENT: invalid document path '' @ p)"

definition sample_parseInt :: "jv \<Rightarrow> jv" where
  "sample_parseInt v = (case v of JNum n \<Rightarrow> JNum n | _ \<Rightarrow> JNaN)"

definition sample_env :: env where
  "sample_env =
     \<lparr>clientId = ''client'', clientSecret = ''secret'',
      customerKey = ''customer'', subscriptionKey = ''subscription'',
      tokenUrl = ''https://omapi-token.ynote.africa/oauth2/token'',
      baseUrl = ''https://omapi.ynote.africa/prod'',
      callbackUrl = ''http://localhost:3001/api/webhooks/ynote-callback'',
      date_now = 1000, timestamp_now = 1000, uuidv4 = ''ref-2'',
      base64 = (\<lambda>s. s), parseInt = sample_parseInt, exponent_string = (\<lambda>n. ''1e+21''),
      store_rejects = (\<lambda>segs. ''.'' \<in> set segs \<or> ''..'' \<in> set segs),
      lib_message = sample_lib_message,
      token_reply = Inr \<lparr>access_token = ''token'', expires_in = Some 3600\<rparr>,
      payment_reply = Inr (JObj [(''parameters'', JObj [(''MessageId'', JStr ''msg-2'')])]),
      status_reply = Inr (JObj [(''status'', JStr ''SUCCESS''), (''amount'', JNum 5000)])\<rparr>"

definition sample_campaign :: "string \<Rightarrow> doc" where
  "sample_campaign st =
     map_of [(''name'', JStr ''Promo''), (''userId'', JStr ''user-1''), (''status'', JStr st)]"

definition sample_transaction :: "string \<Rightarrow> doc" where
  "sample_transaction cid =
     map_of [(''campaignId'', JStr cid), (''userId'', JStr ''user-1''), (''amount'', JNum 5000),
             (''status'', JStr ''PENDING'')]"

definition sample_world :: "string \<Rightarrow> world" where
  "sample_world st =
     \<lparr>campaigns = [''camp-1'' \<mapsto> sample_campaign st],
      mtn_transactions = [''ref-1'' \<mapsto> sample_transaction ''camp-1'',
                          ''ref-9'' \<mapsto> sample_transaction ''camp-9''],
      notifications = [], cachedToken = None, sent = []\<rparr>"

definition sample_callback :: "string \<Rightarrow> string \<Rightarrow> MtnCallbackData" where
  "sample_callback rid st =
     \<lparr>cb_referenceId = Some rid, cb_order_id = None, cb_status = Some st,
      cb_financialTransactionId = Some ''fin-1'', cb_amount = JNum 5000, cb_message = None,
      cb_rest = []\<rparr>"

definition sample_request :: InitiatePaymentRequest where
  "sample_request =
     \<lparr>req_campaignId = ''camp-1'', req_amount = 5000, req_phoneNumber = ''677123456'',
      req_payerMessage = None\<rparr>"

section \<open>The specification's vocabulary\<close>

text \<open>
  The status field of a vendor response, as the specification names it:
  \<open>status\<close>, else \<open>transactionStatus\<close> (when \<open>status\<close> is absent or otherwise falsy).
\<close>

definition status_field :: "(string \<times> jv) list \<Rightarrow> jv" where
  "status_field r =
     (if truthy (fld_of r ''status'') then fld_of r ''status'' else fld_of r ''transactionStatus'')"

section \<open>Verified properties\<close>

subsection \<open>Status normalisation\<close>

text \<open>
  C1. \<open>normalizeYnoteStatus\<close> is a function of the vendor response alone, and its
  status is decided by the response's status field: \<open>SUCCESSFUL\<close> for \<open>SUCCESSFUL\<close>,
  \<open>SUCCESS\<close>, \<open>COMPLETED\<close>; \<open>FAILED\<close> for \<open>FAILED\<close>, \<open>REJECTED\<close>, \<open>CANCELLED\<close>,
  \<open>EXPIRED\<close>; \<open>PENDING\<close> for every other value, a missing field included.
\<close>

theorem normalizeYnoteStatus_mapping:
  "ns_status (normalizeYnoteStatus pI r) =
     (if status_field r \<in> {JStr ''SUCCESSFUL'', JStr ''SUCCESS'', JStr ''COMPLETED''} then SUCCESSFUL
      else if status_field r \<in> {JStr ''FAILED'', JStr ''REJECTED'', JStr ''CANCELLED'', JStr ''EXPIRED''}
      then FAILED
      else PENDING)"
proof (cases "truthy (fld_of r ''status'')")
  case True
  then show ?thesis
    by (simp add: normalizeYnoteStatus_def status_field_def jor_def Let_def)
next
  case False
  note nst = this
  show ?thesis
  proof (cases "truthy (fld_of r ''transactionStatus'')")
    case True
    with nst show ?thesis
      by (simp add: normalizeYnoteStatus_def status_field_def jor_def Let_def)
  next
    case False
    then have "fld_of r ''transactionStatus'' \<notin> {JStr ''SUCCESSFUL'', JStr ''SUCCESS'',
        JStr ''COMPLETED'', JStr ''FAILED'', JStr ''REJECTED'', JStr ''CANCELLED'', JStr ''EXPIRED''}"
      by auto
    with False nst show ?thesis
      by (simp add: normalizeYnoteStatus_def status_field_def jor_def Let_def)
  qed
qed

theorem normalizeYnoteStatus_mapping_witness:
  "ns_status (normalizeYnoteStatus (\<lambda>v. v) [(''transactionStatus'', JStr ''COMPLETED'')]) = SUCCESSFUL
   \<and> ns_status (normalizeYnoteStatus (\<lambda>v. v) [(''status'', JStr ''EXPIRED'')]) = FAILED
   \<and> ns_status (normalizeYnoteStatus (\<lambda>v. v) [(''status'', JStr ''ACCEPTED'')]) = PENDING
   \<and> ns_status (normalizeYnoteStatus (\<lambda>v. v) []) = PENDING"
  using normalizeYnoteStatus_mapping [of "\<lambda>v. v" "[(''transactionStatus'', JStr ''COMPLETED'')]"]
    normalizeYnoteStatus_mapping [of "\<lambda>v. v" "[(''status'', JStr ''EXPIRED'')]"]
    normalizeYnoteStatus_mapping [of "\<lambda>v. v" "[(''status'', JStr ''ACCEPTED'')]"]
    normalizeYnoteStatus_mapping [of "\<lambda>v. v" "[]"]
  by (simp add: status_field_def fld_of_def)

subsection \<open>Phone numbers\<close>

lemma drop_trunk_eq: "drop_trunk ds = (if startsWith ds ''0'' then drop 1 ds else ds)"
  by (cases ds) (auto simp: drop_trunk_def startsWith_def)

lemma with_country_eq: "with_country ds = (if \<not> startsWith ds ''237'' then ''237'' @ ds else ds)"
  by (auto simp: with_country_def startsWith_def split: list.splits)

lemma drop_country_eq: "drop_country ds = (if startsWith ds ''237'' then drop 3 ds else ds)"
  by (auto simp: drop_country_def startsWith_def split: list.splits)

lemma strip_non_digits_filter:
  "strip_non_digits p = filter (\<lambda>c. c \<in> set ''0123456789'') p"
  by (simp add: strip_non_digits_def is_digit_def [abs_def])

lemma all_digits_drop_trunk:
  "list_all (\<lambda>c. c \<in> set ''0123456789'') ds \<Longrightarrow> list_all (\<lambda>c. c \<in> set ''0123456789'') (drop_trunk ds)"
  by (cases ds) (auto simp: drop_trunk_def)

lemma all_digits_with_country:
  "list_all (\<lambda>c. c \<in> set ''0123456789'') ds \<Longrightarrow> list_all (\<lambda>c. c \<in> set ''0123456789'') (with_country ds)"
  by (auto simp: with_country_def split: list.splits)

lemma take3_with_country: "take 3 (with_country ds) = ''237''"
  by (auto simp: with_country_def split: list.splits)

text \<open>
  C8. \<open>formatPhoneNumber\<close> keeps exactly the characters \<open>0\<close> to \<open>9\<close> of its input, in
  their order, then drops one leading \<open>0\<close>, then prefixes \<open>237\<close> unless the number
  already starts with it. Its result consists of digits and starts with \<open>237\<close>. In
  particular \<open>0677123456\<close> and \<open>677123456\<close> both give \<open>237677123456\<close>, while
  \<open>+237 650-11-22-33\<close> gives \<open>237650112233\<close>, \<open>00 68 1\<close> gives \<open>2370681\<close> and the empty
  input gives \<open>237\<close>.
\<close>

theorem formatPhoneNumber_spec:
  "formatPhoneNumber p = with_country (drop_trunk (filter (\<lambda>c. c \<in> set ''0123456789'') p))
   \<and> list_all (\<lambda>c. c \<in> set ''0123456789'') (formatPhoneNumber p)
   \<and> take 3 (formatPhoneNumber p) = ''237''
   \<and> formatPhoneNumber ''0677123456'' = ''237677123456''
   \<and> formatPhoneNumber ''677123456'' = ''237677123456''
   \<and> formatPhoneNumber ''+237 650-11-22-33'' = ''237650112233''
   \<and> formatPhoneNumber ''00 68 1'' = ''2370681''
   \<and> formatPhoneNumber [] = ''237''"
proof -
  have eq: "\<And>q. formatPhoneNumber q
      = with_country (drop_trunk (filter (\<lambda>c. c \<in> set ''0123456789'') q))"
    by (simp add: formatPhoneNumber_def Let_def drop_trunk_eq with_country_eq
        strip_non_digits_filter)
  have dg: "list_all (\<lambda>c. c \<in> set ''0123456789'') (filter (\<lambda>c. c \<in> set ''0123456789'') p)"
    by (simp add: list_all_iff)
  have ex: "formatPhoneNumber ''0677123456'' = ''237677123456''"
    "formatPhoneNumber ''677123456'' = ''237677123456''"
    "formatPhoneNumber ''+237 650-11-22-33'' = ''237650112233''"
    "formatPhoneNumber ''00 68 1'' = ''2370681''"
    "formatPhoneNumber [] = ''237''"
    by (simp_all add: formatPhoneNumber_def Let_def strip_non_digits_def is_digit_def startsWith_def)
  from dg have "list_all (\<lambda>c. c \<in> set ''0123456789'') (formatPhoneNumber p)"
    unfolding eq [of p] by (intro all_digits_with_country all_digits_drop_trunk)
  then show ?thesis
    using eq [of p] ex by (simp add: take3_with_country)
qed

theorem formatPhoneNumber_spec_witness:
  "formatPhoneNumber ''(+237) 699 00 11 22'' = ''237699001122''
   \<and> formatPhoneNumber ''06 52 x 34'' = ''23765234''
   \<and> formatPhoneNumber ''23'' = ''23723''"
  using formatPhoneNumber_spec [of "''(+237) 699 00 11 22''"]
    formatPhoneNumber_spec [of "''06 52 x 34''"] formatPhoneNumber_spec [of "''23''"]
  by (simp add: drop_trunk_def with_country_def)

lemma validate_unfold:
  "validateMtnPhoneNumber p =
     (if length (strip_non_digits p) < 9 then \<lparr>isValid = False, error = Some msg_too_short\<rparr>
      else if carrier_prefix (strip_non_digits p) \<in> set mtnPrefixes
      then \<lparr>isValid = True, error = None\<rparr>
      else \<lparr>isValid = False, error = Some msg_not_mtn\<rparr>)"
  by (simp add: validateMtnPhoneNumber_def Let_def carrier_prefix_def drop_trunk_eq
      drop_country_eq)

text \<open>
  C9, as stated, fails: \<open>69000000\<close> has the carrier prefix 69 and is rejected, but as
  too short (the length check comes first), not as not-MTN.
\<close>

theorem validateMtnPhoneNumber_counterexample:
  "carrier_prefix (strip_non_digits ''69000000'') = ''69''
   \<and> isValid (validateMtnPhoneNumber ''69000000'') = False
   \<and> error (validateMtnPhoneNumber ''69000000'') = Some msg_too_short
   \<and> msg_too_short \<noteq> msg_not_mtn"
  by (simp add: validateMtnPhoneNumber_def Let_def carrier_prefix_def strip_non_digits_def
      is_digit_def drop_country_def drop_trunk_def msg_too_short_def msg_not_mtn_def)

text \<open>
  C9, amended. \<open>validateMtnPhoneNumber\<close> reports valid exactly when the digits of the
  input are at least 9 and the carrier prefix (the first two digits after a leading
  \<open>237\<close> and then a leading \<open>0\<close> are removed) is 65, 67 or 68; a valid result carries
  no error; an invalid one carries the too-short message when the digits are fewer
  than 9 and the not-MTN message otherwise; \<open>23767712345\<close> is valid; a number whose
  carrier prefix is 69 is never valid, and it is rejected as not-MTN when it has 9
  digits or more.
\<close>

theorem validateMtnPhoneNumber_spec:
  "isValid (validateMtnPhoneNumber p) =
     (9 \<le> length (strip_non_digits p)
      \<and> carrier_prefix (strip_non_digits p) \<in> {''65'', ''67'', ''68''})
   \<and> (isValid (validateMtnPhoneNumber p) \<longrightarrow> error (validateMtnPhoneNumber p) = None)
   \<and> (\<not> isValid (validateMtnPhoneNumber p) \<longrightarrow>
        error (validateMtnPhoneNumber p) =
          Some (if length (strip_non_digits p) < 9 then msg_too_short else msg_not_mtn))
   \<and> isValid (validateMtnPhoneNumber ''23767712345'')
   \<and> (carrier_prefix (strip_non_digits p) = ''69'' \<longrightarrow>
        \<not> isValid (validateMtnPhoneNumber p)
        \<and> (9 \<le> length (strip_non_digits p) \<longrightarrow>
             error (validateMtnPhoneNumber p) = Some msg_not_mtn))"
proof -
  have ex: "isValid (validateMtnPhoneNumber ''23767712345'')"
    by (simp add: validateMtnPhoneNumber_def Let_def strip_non_digits_def is_digit_def
        startsWith_def mtnPrefixes_def)
  show ?thesis
    using ex by (auto simp: validate_unfold mtnPrefixes_def)
qed

theorem validateMtnPhoneNumber_spec_witness:
  "carrier_prefix (strip_non_digits ''+237 690 000 000'') = ''69''
   \<and> 9 \<le> length (strip_non_digits ''+237 690 000 000'')
   \<and> \<not> isValid (validateMtnPhoneNumber ''+237 690 000 000'')
   \<and> error (validateMtnPhoneNumber ''+237 690 000 000'') = Some msg_not_mtn
   \<and> isValid (validateMtnPhoneNumber ''0677123456'')
   \<and> error (validateMtnPhoneNumber ''0677123456'') = None"
proof -
  have a: "carrier_prefix (strip_non_digits ''+237 690 000 000'') = ''69''"
    by (simp add: carrier_prefix_def strip_non_digits_def is_digit_def drop_country_def drop_trunk_def)
  have b: "9 \<le> length (strip_non_digits ''+237 690 000 000'')"
    by (simp add: strip_non_digits_def is_digit_def [abs_def])
  have c: "9 \<le> length (strip_non_digits ''0677123456'')
     \<and> carrier_prefix (strip_non_digits ''0677123456'') \<in> {''65'', ''67'', ''68''}"
    by (simp add: carrier_prefix_def strip_non_digits_def is_digit_def drop_country_def drop_trunk_def)
  show ?thesis
    using a b c validateMtnPhoneNumber_spec [of "''+237 690 000 000''"]
      validateMtnPhoneNumber_spec [of "''0677123456''"]
    by simp
qed

subsection \<open>Facts about the store and the token cache\<close>

lemma split_slash_plain: "CHR ''/'' \<notin> set s \<Longrightarrow> split_slash s = [s]"
  by (induction s) auto

lemma no_double_slash: "CHR ''/'' \<notin> set s \<Longrightarrow> \<not> str_includes s ''//''"
  by (induction s) (auto simp: startsWith_def)

text \<open>
  A non-empty id without \<open>/\<close> that the server does not refuse is the path of a
  document, and is its own path.
\<close>

lemma fs_doc_plain:
  "s \<noteq> [] \<Longrightarrow> CHR ''/'' \<notin> set s \<Longrightarrow> \<not> store_rejects e [s] \<Longrightarrow> fs_doc e (JStr s) = Inr s"
  by (simp add: fs_doc_def path_segments_def split_slash_plain no_double_slash)

lemma fs_doc_nonempty: "fs_doc e (JStr s) = Inr k \<Longrightarrow> s \<noteq> []"
  by (auto simp: fs_doc_def split: if_splits)

lemmas sample_defs = sample_env_def sample_world_def sample_campaign_def sample_transaction_def
  sample_callback_def sample_request_def sample_lib_message_def sample_parseInt_def

lemmas store_defs = fs_update_def fs_add_def fs_set_def fs_doc_plain no_undefined_def
  merge_fields_def fld_def opt_jv_def sor_def sor_str_def callback_json_def

lemma getAccessToken_store:
  "campaigns (snd (getAccessToken e w)) = campaigns w"
  "mtn_transactions (snd (getAccessToken e w)) = mtn_transactions w"
  "notifications (snd (getAccessToken e w)) = notifications w"
  by (simp_all add: getAccessToken_def Let_def split: option.splits sum.splits)

lemma fs_update_other:
  "fs_update e cname coll k kvs = Inr coll' \<Longrightarrow> k' \<noteq> k \<Longrightarrow> coll' k' = coll k'"
  by (auto simp: fs_update_def split: if_splits option.splits)


subsection \<open>The campaign transition\<close>



lemma handleSuccessfulPayment_keeps:
  assumes "campaigns w cid = Some c" "fld c ''status'' \<noteq> JStr ''pending_payment''"
  shows "campaigns (snd (handleSuccessfulPayment e w cid' rid st uid)) cid = Some c"
proof (cases "fs_doc e (JStr cid')")
  case (Inl x)
  with assms show ?thesis by (simp add: handleSuccessfulPayment_def)
next
  case (Inr ck)
  show ?thesis
  proof (cases "ck = cid")
    case True
    with assms Inr show ?thesis by (simp add: handleSuccessfulPayment_def)
  next
    case False
    with assms Inr show ?thesis
      by (auto simp: handleSuccessfulPayment_def Let_def dest: fs_update_other
          split: option.splits sum.splits)
  qed
qed

lemma checkPaymentStatus_try_keeps:
  assumes "campaigns w cid = Some c" "fld c ''status'' \<noteq> JStr ''pending_payment''"
  shows "campaigns (snd (checkPaymentStatus_try e w rid campaignId userId)) cid = Some c"
proof -
  obtain r w1 where g: "getAccessToken e w = (r, w1)" by (cases "getAccessToken e w")
  have c1: "campaigns w1 = campaigns w" using getAccessToken_store(1) [of e w] g by simp
  have k: "\<And>w' cid' st r' w''. handleSuccessfulPayment e w' cid' rid st userId = (r', w'')
     \<Longrightarrow> campaigns w' = campaigns w \<Longrightarrow> campaigns w'' cid = Some c"
  proof -
    fix w' cid' st r' w''
    assume h: "handleSuccessfulPayment e w' cid' rid st userId = (r', w'')"
      and s: "campaigns w' = campaigns w"
    have "campaigns (snd (handleSuccessfulPayment e w' cid' rid st userId)) cid = Some c"
      using assms s by (simp add: handleSuccessfulPayment_keeps)
    with h show "campaigns w'' cid = Some c" by simp
  qed
  show ?thesis
  proof (cases r)
    case (Inl x)
    with g show ?thesis by (simp add: checkPaymentStatus_try_def c1 assms)
  next
    case tok: (Inr tok)
    show ?thesis
    proof (cases "status_reply e")
      case (Inl err)
      with g tok show ?thesis by (simp add: checkPaymentStatus_try_def Let_def c1 assms)
    next
      case ps: (Inr ps)
      show ?thesis
      proof (cases "obj_of ps")
        case None
        with g tok ps show ?thesis by (simp add: checkPaymentStatus_try_def Let_def c1 assms)
      next
        case resp: (Some resp)
        show ?thesis
        proof (cases "fs_doc e (JStr rid)")
          case (Inl x)
          with g tok ps resp show ?thesis
            by (simp add: checkPaymentStatus_try_def Let_def c1 assms)
        next
          case (Inr tk)
          with g tok ps resp show ?thesis
            apply (simp add: checkPaymentStatus_try_def Let_def)
            apply (simp split: option.splits sum.splits prod.splits add: c1 assms)
            apply (intro allI conjI impI)
            apply (auto dest: k simp: c1 assms)
            done
        qed
      qed
    qed
  qed
qed

lemma handleCallback_keeps:
  assumes "campaigns w cid = Some c" "fld c ''status'' \<noteq> JStr ''pending_payment''"
    and "cb_status cb = Some ''SUCCESSFUL''"
  shows "campaigns (snd (handleCallback e w cb)) cid = Some c"
proof -
  have k: "\<And>cid' kvs cs d. fs_update e ''campaigns'' (campaigns w) cid' kvs = Inr cs \<Longrightarrow>
     campaigns w cid' = Some d \<Longrightarrow> fld d ''status'' = JStr ''pending_payment'' \<Longrightarrow> cs cid = Some c"
    using assms(1,2) fs_update_other by (metis option.inject)
  show ?thesis
    using assms
    apply (simp add: handleCallback_def Let_def split: option.splits sum.splits)
    apply (intro allI conjI impI)
    apply (auto simp: Let_def split: option.splits sum.splits dest: k)
    done
qed

lemma fs_update_status:
  assumes "fs_update e cname coll k kvs = Inr coll'" "coll k' = Some d"
    and "''status'' \<notin> fst ` set kvs"
  shows "\<exists>d'. coll' k' = Some d' \<and> fld d' ''status'' = fld d ''status''"
proof -
  have m: "\<And>d0. ''status'' \<notin> fst ` set kvs \<Longrightarrow> merge_fields d0 kvs ''status'' = d0 ''status''"
    unfolding merge_fields_def
    by (induction kvs rule: rev_induct) auto
  obtain dk where dk: "coll k = Some dk" "coll' = coll(k \<mapsto> merge_fields dk kvs)"
    using assms(1) by (auto simp: fs_update_def split: if_splits option.splits)
  show ?thesis
  proof (cases "k' = k")
    case True
    with dk assms(2) have "coll' k' = Some (merge_fields d kvs)" by simp
    moreover have "fld (merge_fields d kvs) ''status'' = fld d ''status''"
      using m [OF assms(3), of d] by (simp add: fld_def)
    ultimately show ?thesis by blast
  next
    case False
    with dk assms(2) show ?thesis by simp
  qed
qed

text \<open>
  A callback changes the status of a campaign only when the campaign is in
  \<open>pending_payment\<close> and the callback's status is the literal \<open>SUCCESSFUL\<close>: with any
  other status (a vendor's \<open>SUCCESS\<close> or \<open>COMPLETED\<close>, for one) no campaign changes
  status.
\<close>

lemma handleCallback_status_kept:
  assumes "campaigns w cid = Some c"
    and "fld c ''status'' \<noteq> JStr ''pending_payment'' \<or> cb_status cb \<noteq> Some ''SUCCESSFUL''"
  shows "\<exists>c'. campaigns (snd (handleCallback e w cb)) cid = Some c'
            \<and> fld c' ''status'' = fld c ''status''"
proof (cases "cb_status cb = Some ''SUCCESSFUL''")
  case True
  with assms have "campaigns (snd (handleCallback e w cb)) cid = Some c"
    by (simp add: handleCallback_keeps)
  then show ?thesis by simp
next
  case False
  have k: "\<And>cid' cs. fs_update e ''campaigns'' (campaigns w) cid'
              [(''mtnPaymentStatus'', JStr ''FAILED''),
               (''updatedAt'', JTimestamp (timestamp_now e))] = Inr cs
            \<Longrightarrow> \<exists>c'. cs cid = Some c' \<and> fld c' ''status'' = fld c ''status''"
    using assms(1) by (rule fs_update_status [rotated]) simp_all
  show ?thesis
    using assms(1) False
    apply (simp add: handleCallback_def Let_def split: option.splits sum.splits)
    apply (intro allI conjI impI)
    apply (auto simp: Let_def split: option.splits sum.splits dest: k)
    done
qed

lemma initiatePayment_try_keeps:
  assumes "campaigns w cid = Some c" "campaignRef \<noteq> cid"
  shows "campaigns (snd (initiatePayment_try e w request userId campaignRef campaignData)) cid
     = Some c"
proof -
  obtain r w1 where g: "getAccessToken e w = (r, w1)" by (cases "getAccessToken e w")
  have c1: "campaigns w1 = campaigns w" using getAccessToken_store(1) [of e w] g by simp
  have k: "\<And>kvs cs. fs_update e ''campaigns'' (campaigns w) campaignRef kvs = Inr cs
             \<Longrightarrow> cs cid = Some c"
    using assms fs_update_other [of e "''campaigns''" "campaigns w" campaignRef _ _ cid] by auto
  show ?thesis
  proof (cases r)
    case (Inl x)
    with g show ?thesis by (simp add: initiatePayment_try_def c1 assms)
  next
    case tok: (Inr tok)
    show ?thesis
    proof (cases "payment_reply e")
      case (Inl err)
      with g tok show ?thesis by (simp add: initiatePayment_try_def Let_def c1 assms)
    next
      case ps: (Inr ps)
      show ?thesis
      proof (cases "obj_of ps")
        case None
        with g tok ps show ?thesis by (simp add: initiatePayment_try_def Let_def c1 assms)
      next
        case (Some resp)
        with g tok ps show ?thesis
          apply (simp add: initiatePayment_try_def Let_def)
          apply (simp split: sum.splits add: c1 assms)
          apply (intro allI conjI impI)
          apply (auto dest: k simp: Let_def c1 assms split: sum.splits)
          done
      qed
    qed
  qed
qed

lemma initiatePayment_keeps:
  assumes "campaigns w cid = Some c" "fld c ''status'' \<noteq> JStr ''pending_payment''"
  shows "campaigns (snd (initiatePayment e w request userId)) cid = Some c"
proof (cases "fs_doc e (JStr (req_campaignId request))")
  case (Inl x)
  with assms show ?thesis by (auto simp: initiatePayment_def Let_def split: option.splits)
next
  case (Inr ck)
  show ?thesis
  proof (cases "ck = cid")
    case True
    with assms Inr show ?thesis by (auto simp: initiatePayment_def Let_def split: option.splits)
  next
    case False
    with assms(1) Inr show ?thesis
      by (auto simp: initiatePayment_def Let_def initiatePayment_try_keeps split: option.splits)
  qed
qed

text \<open>
  C2. The two entry points do not treat the vendor status alike. On the sample
  store, where campaign \<open>camp-1\<close> awaits payment: a callback for \<open>ref-1\<close> carrying the
  vendor status \<open>SUCCESS\<close> succeeds, leaves the campaign in \<open>pending_payment\<close> and emits
  no notification; the same callback carrying \<open>SUCCESSFUL\<close> moves the campaign to
  \<open>scheduled\<close>; and the poll, to which the gateway answers \<open>SUCCESS\<close>, normalizes it and
  moves the campaign to \<open>scheduled\<close>.
\<close>

theorem callback_status_not_normalized:
  "fst (handleCallback sample_env (sample_world ''pending_payment'')
          (sample_callback ''ref-1'' ''SUCCESS'')) = Inr ()
   \<and> fld (the (campaigns (snd (handleCallback sample_env (sample_world ''pending_payment'')
                                 (sample_callback ''ref-1'' ''SUCCESS''))) ''camp-1'')) ''status''
       = JStr ''pending_payment''
   \<and> notifications (snd (handleCallback sample_env (sample_world ''pending_payment'')
                            (sample_callback ''ref-1'' ''SUCCESS''))) = []
   \<and> fld (the (campaigns (snd (handleCallback sample_env (sample_world ''pending_payment'')
                                 (sample_callback ''ref-1'' ''SUCCESSFUL''))) ''camp-1'')) ''status''
       = JStr ''scheduled''
   \<and> fld (the (campaigns (snd (checkPaymentStatus sample_env (sample_world ''pending_payment'')
                                 ''ref-1'' (Some ''camp-1'') (Some ''user-1''))) ''camp-1'')) ''status''
       = JStr ''scheduled''"
  by (simp add: handleCallback_def checkPaymentStatus_def checkPaymentStatus_try_def
      handleSuccessfulPayment_def getAccessToken_def validateCredentials_def
      normalizeYnoteStatus_def jor_def fld_of_def Let_def sample_defs store_defs)

text \<open>
  C3. A campaign whose status is not \<open>pending_payment\<close> (in particular one already
  \<open>scheduled\<close>) is left exactly as it is, field for field, by a poll (whatever the
  gateway answers, whatever campaign id and caller are given) and by a callback with
  status \<open>SUCCESSFUL\<close>. No other write reaches its status either: a callback with any
  status keeps the campaign's status, and \<open>initiatePayment\<close> leaves the campaign as it
  is. So every write of \<open>scheduled\<close> sits behind the check that the current status is
  \<open>pending_payment\<close>, and the transition cannot happen a second time.
\<close>

theorem non_pending_campaign_untouched:
  assumes "campaigns w cid = Some c"
    and "fld c ''status'' \<noteq> JStr ''pending_payment''"
  shows "campaigns (snd (checkPaymentStatus e w rid campaignId userId)) cid = Some c
     \<and> (cb_status cb = Some ''SUCCESSFUL''
          \<longrightarrow> campaigns (snd (handleCallback e w cb)) cid = Some c)
     \<and> (\<exists>c'. campaigns (snd (handleCallback e w cb)) cid = Some c'
               \<and> fld c' ''status'' = fld c ''status'')
     \<and> campaigns (snd (initiatePayment e w request caller)) cid = Some c"
proof -
  have poll: "campaigns (snd (checkPaymentStatus e w rid campaignId userId)) cid = Some c"
  proof (cases "rid = [] \<or> validateCredentials e \<noteq> None")
    case True
    with assms show ?thesis by (auto simp: checkPaymentStatus_def)
  next
    case False
    have "snd (checkPaymentStatus e w rid campaignId userId)
        = snd (checkPaymentStatus_try e w rid campaignId userId)"
      using False by (auto simp: checkPaymentStatus_def split: prod.splits sum.splits)
    with assms show ?thesis by (simp add: checkPaymentStatus_try_keeps)
  qed
  have kept: "\<exists>c'. campaigns (snd (handleCallback e w cb)) cid = Some c'
               \<and> fld c' ''status'' = fld c ''status''"
    using assms by (simp add: handleCallback_status_kept)
  show ?thesis
    using poll kept assms by (simp add: handleCallback_keeps initiatePayment_keeps)
qed

theorem non_pending_campaign_untouched_witness:
  "campaigns (sample_world ''scheduled'') ''camp-1'' = Some (sample_campaign ''scheduled'')
   \<and> fld (sample_campaign ''scheduled'') ''status'' = JStr ''scheduled''
   \<and> ns_status (normalizeYnoteStatus (parseInt sample_env)
         [(''status'', JStr ''SUCCESS''), (''amount'', JNum 5000)]) = SUCCESSFUL
   \<and> campaigns (snd (checkPaymentStatus sample_env (sample_world ''scheduled'') ''ref-1''
                      (Some ''camp-1'') (Some ''user-1''))) ''camp-1''
       = Some (sample_campaign ''scheduled'')
   \<and> campaigns (snd (handleCallback sample_env (sample_world ''scheduled'')
                      (sample_callback ''ref-1'' ''SUCCESSFUL''))) ''camp-1''
       = Some (sample_campaign ''scheduled'')
   \<and> campaigns (snd (initiatePayment sample_env (sample_world ''scheduled'') sample_request
                      ''user-1'')) ''camp-1''
       = Some (sample_campaign ''scheduled'')"
proof -
  have a: "campaigns (sample_world ''scheduled'') ''camp-1'' = Some (sample_campaign ''scheduled'')"
    by (simp add: sample_world_def)
  have b: "fld (sample_campaign ''scheduled'') ''status'' = JStr ''scheduled''"
    by (simp add: sample_campaign_def fld_def)
  have b': "fld (sample_campaign ''scheduled'') ''status'' \<noteq> JStr ''pending_payment''"
    using b by simp
  have c: "cb_status (sample_callback ''ref-1'' ''SUCCESSFUL'') = Some ''SUCCESSFUL''"
    by (simp add: sample_callback_def)
  have d: "ns_status (normalizeYnoteStatus (parseInt sample_env)
         [(''status'', JStr ''SUCCESS''), (''amount'', JNum 5000)]) = SUCCESSFUL"
    by (simp add: normalizeYnoteStatus_def jor_def fld_of_def)
  show ?thesis
    using a b c d
      non_pending_campaign_untouched [OF a b', of sample_env "''ref-1''" "Some ''camp-1''"
        "Some ''user-1''" "sample_callback ''ref-1'' ''SUCCESSFUL''" sample_request "''user-1''"]
    by simp
qed

text \<open>
  C7. What the two entry points write to the transaction row differs. On the sample
  store, a callback for \<open>ref-1\<close> with the vendor status \<open>SUCCESS\<close> stores the status
  \<open>SUCCESS\<close> as received, although that status normalizes to \<open>SUCCESSFUL\<close>; the poll,
  answered \<open>SUCCESS\<close> by the gateway, stores the normalized \<open>SUCCESSFUL\<close>.
\<close>

theorem callback_writes_raw_status:
  "fld (the (mtn_transactions (snd (handleCallback sample_env (sample_world ''pending_payment'')
                                     (sample_callback ''ref-1'' ''SUCCESS''))) ''ref-1'')) ''status''
     = JStr ''SUCCESS''
   \<and> ns_status (normalizeYnoteStatus sample_parseInt [(''status'', JStr ''SUCCESS'')]) = SUCCESSFUL
   \<and> fld (the (mtn_transactions (snd (checkPaymentStatus sample_env (sample_world ''pending_payment'')
                                        ''ref-1'' (Some ''camp-1'') (Some ''user-1''))) ''ref-1'')) ''status''
     = JStr ''SUCCESSFUL''"
  by (simp add: handleCallback_def checkPaymentStatus_def checkPaymentStatus_try_def
      handleSuccessfulPayment_def getAccessToken_def validateCredentials_def
      normalizeYnoteStatus_def jor_def fld_of_def Let_def sample_defs store_defs)

subsection \<open>The webhook's answers\<close>

text \<open>
  The status code of the route for a \<open>POST\<close>, in terms of the outcome of
  \<open>handleCallback\<close>: 200 only when it returns; on a failure 404, 400 or 500, by the
  failure's message.
\<close>

lemma ynote_callback_route_status:
  assumes "http_method req = ''POST''"
  shows "fst (fst (ynote_callback_route e w req)) =
     (case fst (handleCallback e w (body req)) of
        Inr u \<Rightarrow> 200
      | Inl x \<Rightarrow> if str_includes (message x) ''introuvable'' then 404
                 else if str_includes (message x) ''manquant'' then 400
                 else 500)"
  using assms by (simp add: ynote_callback_route_def split: prod.splits sum.splits)

text \<open>
  C4. A callback whose processing fails for a reason other than the two recognized
  ones is answered 500, not 200: on the sample store, a \<open>FAILED\<close> callback for \<open>ref-9\<close>,
  whose campaign document no longer exists, makes the campaign update fail in the
  store, and the route answers 500.
\<close>

theorem webhook_internal_failure_status:
  "fst (fst (ynote_callback_route sample_env (sample_world ''pending_payment'')
               \<lparr>http_method = ''POST'', body = sample_callback ''ref-9'' ''FAILED''\<rparr>)) = 500"
  by (simp add: ynote_callback_route_def handleCallback_def Let_def sample_defs store_defs
      startsWith_def)




subsection \<open>Initiating a payment on a campaign that is not awaiting payment\<close>

text \<open>
  C5, as stated, fails: the campaign \<open>camp-1\<close> is \<open>scheduled\<close> and the caller \<open>user-2\<close>
  does not own it; \<open>initiatePayment\<close> fails with the ownership error, which is not the
  invalid-state error (the state is untouched all the same).
\<close>

theorem initiatePayment_not_pending_counterexample:
  "fld (the (campaigns (sample_world ''scheduled'') (req_campaignId sample_request))) ''status''
     = JStr ''scheduled''
   \<and> initiatePayment sample_env (sample_world ''scheduled'') sample_request ''user-2''
       = (Inl (Error msg_not_owner), sample_world ''scheduled'')
   \<and> msg_not_owner \<noteq> msg_not_pending"
  by (simp add: initiatePayment_def validateCredentials_def validateMtnPhoneNumber_def
      strip_non_digits_def is_digit_def startsWith_def mtnPrefixes_def Let_def
      msg_not_owner_def msg_not_pending_def sample_defs store_defs)

text \<open>
  C5, amended. Let the request's campaign id be the path of a document and the
  campaign stored there have a status other than \<open>pending_payment\<close>. Then, for every
  caller and every request, \<open>initiatePayment\<close> fails and leaves the whole state as it
  was: no transaction document, no campaign field, no request to the gateway, no
  change of the token cache. Its error is that of the first check that fails, in this
  order: the credentials are not configured (the credentials error); the amount is 0
  or the phone is empty (missing parameters); the amount is below 100 (minimum
  amount); the phone is not a valid MTN number (the validator's message); the caller
  does not own the campaign (permission denied); and, when all of those pass, the
  invalid-state error.
\<close>

theorem initiatePayment_not_pending:
  assumes "fs_doc e (JStr (req_campaignId request)) = Inr key"
    and "campaigns w key = Some c"
    and "fld c ''status'' \<noteq> JStr ''pending_payment''"
  shows "(\<exists>x. initiatePayment e w request userId = (Inl x, w))
     \<and> (validateCredentials e = None \<and> 100 \<le> req_amount request
          \<and> isValid (validateMtnPhoneNumber (req_phoneNumber request))
          \<and> fld c ''userId'' = JStr userId
        \<longrightarrow> initiatePayment e w request userId = (Inl (Error msg_not_pending), w))
     \<and> (validateCredentials e = None \<and> 100 \<le> req_amount request
          \<and> isValid (validateMtnPhoneNumber (req_phoneNumber request))
          \<and> fld c ''userId'' \<noteq> JStr userId
        \<longrightarrow> initiatePayment e w request userId = (Inl (Error msg_not_owner), w))
     \<and> (validateCredentials e = None \<and> 100 \<le> req_amount request
          \<and> req_phoneNumber request \<noteq> []
          \<and> \<not> isValid (validateMtnPhoneNumber (req_phoneNumber request))
        \<longrightarrow> initiatePayment e w request userId
              = (Inl (Error (if length (strip_non_digits (req_phoneNumber request)) < 9
                             then msg_too_short else msg_not_mtn)), w))
     \<and> (validateCredentials e = None \<and> req_amount request \<noteq> 0 \<and> req_amount request < 100
          \<and> req_phoneNumber request \<noteq> []
        \<longrightarrow> initiatePayment e w request userId = (Inl (Error msg_min_amount), w))
     \<and> (validateCredentials e = None \<and> (req_amount request = 0 \<or> req_phoneNumber request = [])
        \<longrightarrow> initiatePayment e w request userId = (Inl (Error msg_missing_params), w))
     \<and> (\<forall>x. validateCredentials e = Some x
        \<longrightarrow> initiatePayment e w request userId = (Inl x, w))"
proof -
  have ne: "req_campaignId request \<noteq> []"
    using assms(1) by (rule fs_doc_nonempty)
  have short: "req_phoneNumber request = []
      \<Longrightarrow> \<not> isValid (validateMtnPhoneNumber (req_phoneNumber request))"
    by (simp add: validateMtnPhoneNumber_def strip_non_digits_def)
  have msg: "\<not> isValid (validateMtnPhoneNumber (req_phoneNumber request)) \<Longrightarrow>
      sor_str (error (validateMtnPhoneNumber (req_phoneNumber request))) msg_invalid_phone
      = (if length (strip_non_digits (req_phoneNumber request)) < 9
         then msg_too_short else msg_not_mtn)"
    by (simp add: validate_unfold sor_str_def msg_too_short_def msg_not_mtn_def
        split: if_splits)
  show ?thesis
    using assms ne short msg
    by (auto simp: initiatePayment_def Let_def split: option.splits)
qed

theorem initiatePayment_not_pending_witness:
  "fs_doc sample_env (JStr (req_campaignId sample_request)) = Inr ''camp-1''
   \<and> campaigns (sample_world ''scheduled'') ''camp-1'' = Some (sample_campaign ''scheduled'')
   \<and> fld (sample_campaign ''scheduled'') ''status'' \<noteq> JStr ''pending_payment''
   \<and> initiatePayment sample_env (sample_world ''scheduled'') sample_request ''user-1''
       = (Inl (Error msg_not_pending), sample_world ''scheduled'')
   \<and> initiatePayment sample_env (sample_world ''scheduled'') sample_request ''user-2''
       = (Inl (Error msg_not_owner), sample_world ''scheduled'')
   \<and> initiatePayment sample_env (sample_world ''scheduled'')
         (sample_request\<lparr>req_amount := 50\<rparr>) ''user-2''
       = (Inl (Error msg_min_amount), sample_world ''scheduled'')
   \<and> initiatePayment sample_env (sample_world ''scheduled'')
         (sample_request\<lparr>req_phoneNumber := ''690000000''\<rparr>) ''user-2''
       = (Inl (Error msg_not_mtn), sample_world ''scheduled'')
   \<and> initiatePayment sample_env (sample_world ''scheduled'')
         (sample_request\<lparr>req_amount := 0\<rparr>) ''user-2''
       = (Inl (Error msg_missing_params), sample_world ''scheduled'')
   \<and> initiatePayment (sample_env\<lparr>clientSecret := []\<rparr>) (sample_world ''scheduled'')
         sample_request ''user-2''
       = (Inl (Error msg_credentials), sample_world ''scheduled'')"
proof -
  have a: "fs_doc sample_env (JStr (req_campaignId sample_request)) = Inr ''camp-1''"
    "fs_doc sample_env (JStr (req_campaignId (sample_request\<lparr>req_amount := 50\<rparr>)))
       = Inr ''camp-1''"
    "fs_doc sample_env (JStr (req_campaignId (sample_request\<lparr>req_phoneNumber := ''690000000''\<rparr>)))
       = Inr ''camp-1''"
    "fs_doc sample_env (JStr (req_campaignId (sample_request\<lparr>req_amount := 0\<rparr>)))
       = Inr ''camp-1''"
    "fs_doc (sample_env\<lparr>clientSecret := []\<rparr>) (JStr (req_campaignId sample_request))
       = Inr ''camp-1''"
    by (simp_all add: sample_request_def fs_doc_plain sample_env_def)
  have b: "campaigns (sample_world ''scheduled'') ''camp-1'' = Some (sample_campaign ''scheduled'')"
    by (simp add: sample_world_def)
  have c: "fld (sample_campaign ''scheduled'') ''status'' \<noteq> JStr ''pending_payment''"
    by (simp add: sample_campaign_def fld_def)
  have d: "validateCredentials sample_env = None \<and> 100 \<le> req_amount sample_request
          \<and> isValid (validateMtnPhoneNumber (req_phoneNumber sample_request))
          \<and> fld (sample_campaign ''scheduled'') ''userId'' = JStr ''user-1''
          \<and> req_phoneNumber sample_request \<noteq> []"
    by (simp add: validateCredentials_def validateMtnPhoneNumber_def
      strip_non_digits_def is_digit_def startsWith_def mtnPrefixes_def Let_def sample_defs fld_def)
  have f: "\<not> isValid (validateMtnPhoneNumber ''690000000'')
      \<and> \<not> length (strip_non_digits ''690000000'') < 9"
    by (simp add: validateMtnPhoneNumber_def
      strip_non_digits_def is_digit_def startsWith_def mtnPrefixes_def Let_def)
  have g: "validateCredentials (sample_env\<lparr>clientSecret := []\<rparr>) = Some (Error msg_credentials)"
    by (simp add: validateCredentials_def sample_env_def)
  show ?thesis
    using a b c d f g
      initiatePayment_not_pending [OF a(1) b c, of "''user-1''"]
      initiatePayment_not_pending [OF a(1) b c, of "''user-2''"]
      initiatePayment_not_pending [OF a(2) b c, of "''user-2''"]
      initiatePayment_not_pending [OF a(3) b c, of "''user-2''"]
      initiatePayment_not_pending [OF a(4) b c, of "''user-2''"]
      initiatePayment_not_pending [OF a(5) b c, of "''user-2''"]
    by (simp add: sample_request_def)
qed

subsection \<open>Polling a reference without a stored transaction\<close>




end
